theory Spec2Isabelle
  imports Complex_Main
begin

section \<open>The configuration resolver of ursa\_node.cpp\<close>

text \<open>
  The node reads its parameters from a ROS node handle into file-scope variables
  (\<open>get_params\<close>), builds two lookup tables (\<open>fill_maps\<close>) and then drives the
  detector through \<open>ursa::Interface\<close> (\<open>main\<close>). The model keeps the file-scope
  variables in one record, passes it through the functions, and records every call that
  leaves the file (parameter reads, log messages, device calls) in a trace.

  Numbers: \<open>int\<close> and \<open>int32_t\<close> variables are only copied, never computed with, and
  are modelled by \<open>int\<close>. A \<open>double\<close> is a real number, an infinity or NaN.
\<close>

subsection \<open>Device codes\<close>

text \<open>
  The enumerations \<open>ursa::shaping_time\<close> and \<open>ursa::inputs\<close> are declared in
  \<open>ursa_driver/ursa_driver.h\<close>; the enumerators below are the ones this file names.
\<close>

datatype shaping_time =
  TIME0_25uS | TIME0_5uS | TIME1uS | TIME2uS | TIME4uS | TIME6uS | TIME8uS | TIME10uS

datatype inputs = INPUT1NEG | INPUT1POS | INPUT2NEG | INPUTXPOS

subsection \<open>Doubles and the map keyed by them\<close>

text \<open>
  A \<open>double\<close> is a number, an infinity or NaN. The numbers are modelled by the reals
  (every finite \<open>double\<close> is one). \<open>double_less\<close> is the \<open>operator<\<close> that
  \<open>std::map<double, ...>\<close> compares keys with: it is false whenever an operand is
  NaN.
\<close>

datatype double = Num real | PInf | NInf | NaN

fun double_less :: "double \<Rightarrow> double \<Rightarrow> bool" where
  "double_less (Num a) (Num b) = (a < b)"
| "double_less (Num a) PInf = True"
| "double_less NInf (Num b) = True"
| "double_less NInf PInf = True"
| "double_less x y = False"

text \<open>
  \<open>std::map<double, ursa::shaping_time>\<close> is modelled by the list of its entries in
  ascending key order. \<open>find\<close> and \<open>operator[]\<close> both start with the lower bound of
  the key searched for: the first entry whose key is not less than it. When the keys in
  the map are numbers, this is the entry the descent of the search tree ends at, also for
  a NaN, which no key is less than: the descent goes left at every node and ends at the
  smallest key. \<open>find\<close> then answers \<open>end()\<close> (here \<open>None\<close>) if there is no such
  entry or the key searched for is less than the key of the entry, and the entry
  otherwise; \<open>operator[]\<close> makes the same test, inserts a new entry where \<open>find\<close>
  would answer \<open>end()\<close>, and gives access to the value of the entry.
\<close>

fun lower_bound :: "(double \<times> 'v) list \<Rightarrow> double \<Rightarrow> (double \<times> 'v) list" where
  "lower_bound [] k = []"
| "lower_bound ((k', v) # m) k =
     (if double_less k' k then lower_bound m k else (k', v) # m)"

definition map_find :: "(double \<times> 'v) list \<Rightarrow> double \<Rightarrow> (double \<times> 'v) option" where
  "map_find m k =
     (case lower_bound m k of
        [] \<Rightarrow> None
      | (k', v) # rest \<Rightarrow> if double_less k k' then None else Some (k', v))"

text \<open>\<open>m[k] = v\<close>.\<close>

fun map_assign :: "(double \<times> 'v) list \<Rightarrow> double \<Rightarrow> 'v \<Rightarrow> (double \<times> 'v) list" where
  "map_assign [] k v = [(k, v)]"
| "map_assign ((k', v') # m) k v =
     (if double_less k' k then (k', v') # map_assign m k v
      else if double_less k k' then (k, v) # (k', v') # m
      else (k', v) # m)"

subsection \<open>The parameter server\<close>

text \<open>
  \<open>ros::NodeHandle\<close> offers typed getters: \<open>getParam(key, var)\<close> returns false and
  leaves \<open>var\<close> alone when the key is not set (or does not have the type of \<open>var\<close>),
  and otherwise stores the value and returns true. A node handle is modelled by its four
  typed getters, \<open>None\<close> standing for the result false.
\<close>

record NodeHandle =
  getParam_bool :: "string \<Rightarrow> bool option"
  getParam_int :: "string \<Rightarrow> int option"
  getParam_double :: "string \<Rightarrow> double option"
  getParam_string :: "string \<Rightarrow> string option"

text \<open>\<open>nh.param(key, var, default)\<close>: the value of the key, or the default.\<close>

definition param :: "'a option \<Rightarrow> 'a \<Rightarrow> 'a" where
  "param v d = (case v of Some x \<Rightarrow> x | None \<Rightarrow> d)"

subsection \<open>Calls that leave the file\<close>

datatype event =
    Ros_param string
  | Ros_getParam string
  | Ros_ERROR string
  | Ros_INFO string
  | Ros_advertise string
  | Ros_advertiseService string
  | Ros_createTimer
  | Ros_timer_start
  | Ros_spin
  | Ursa_new string int
  | Ursa_connect
  | Ursa_connected
  | Ursa_loadPrevSettings
  | Ursa_setGain double
  | Ursa_setThresholdOffset int
  | Ursa_setShapingTime shaping_time
  | Ursa_setInput inputs
  | Ursa_setRamp int
  | Ursa_setVoltage int
  | Ursa_startGM
  | Ursa_startAcquire
  | Ursa_stopAcquire

text \<open>The calls on \<open>ursa::Interface\<close>, its construction included.\<close>

fun is_device_call :: "event \<Rightarrow> bool" where
  "is_device_call (Ros_param k) = False"
| "is_device_call (Ros_getParam k) = False"
| "is_device_call (Ros_ERROR m) = False"
| "is_device_call (Ros_INFO m) = False"
| "is_device_call (Ros_advertise t) = False"
| "is_device_call (Ros_advertiseService t) = False"
| "is_device_call Ros_createTimer = False"
| "is_device_call Ros_timer_start = False"
| "is_device_call Ros_spin = False"
| "is_device_call e = True"

subsection \<open>File-scope variables\<close>

record state =
  baud :: int
  port :: string
  detector_frame :: string
  HV :: int
  gain :: double
  threshold :: int
  shaping_time :: double
  real_shaping_time :: shaping_time
  input_polarity :: string
  real_input :: inputs
  ramp :: int
  shape_map :: "(double \<times> shaping_time) list"
  input_map :: "string \<rightharpoonup> inputs"
  load_prev :: bool
  GMmode :: bool
  imeadiate :: bool
  trace :: "event list"

text \<open>
  The fields above are the variables of lines 34 to 52; \<open>trace\<close> is not a variable of
  the program but the list of calls made so far.

  The variables at program start: the initialisers of lines 34 to 52, zero for the
  variables without one. The zero enumerators of the two enumerations are declared in
  the header and are parameters here.
\<close>

definition init_state :: "shaping_time \<Rightarrow> inputs \<Rightarrow> state" where
  "init_state sti ini =
     \<lparr> baud = 0, port = '''', detector_frame = '''',
       HV = 0, gain = Num 0, threshold = 0, shaping_time = Num 1,
       real_shaping_time = sti, input_polarity = '''', real_input = ini,
       ramp = 6, shape_map = [], input_map = Map.empty,
       load_prev = False, GMmode = False, imeadiate = False,
       trace = [] \<rparr>"

definition emit :: "event \<Rightarrow> state \<Rightarrow> state" where
  "emit e s = s\<lparr>trace := trace s @ [e]\<rparr>"

subsection \<open>fill\_maps\<close>

definition fill_maps :: "state \<Rightarrow> state" where
  "fill_maps s =
     s\<lparr> shape_map := foldl (\<lambda>m (k, c). map_assign m k c) (shape_map s)
          [(Num 0.25, TIME0_25uS), (Num 0.5, TIME0_5uS), (Num 1, TIME1uS),
           (Num 2, TIME2uS), (Num 4, TIME4uS), (Num 6, TIME6uS), (Num 8, TIME8uS),
           (Num 10, TIME10uS)],
        input_map := (input_map s)
          (''input1_negative'' \<mapsto> INPUT1NEG, ''input1_positive'' \<mapsto> INPUT1POS,
           ''input2_negative'' \<mapsto> INPUT2NEG, ''input2_positive'' \<mapsto> INPUT1POS,
           ''shaped_input'' \<mapsto> INPUTXPOS) \<rparr>"

subsection \<open>get\_params\<close>

text \<open>The two messages of lines 211 and 217 to 219 (\<open>CHR 0x22\<close> is the double quote).\<close>

definition shaping_time_invalid :: string where
  "shaping_time_invalid = ''Shaping time must be valid. Input as double in microseconds.''"

definition input_polarity_invalid :: string where
  "input_polarity_invalid =
     ''Input and polarity must be valid. Input as string in the format ''
     @ [CHR 0x22] @ ''intput1_negative'' @ [CHR 0x22]
     @ '' if using a pre-shaped positive input ''
     @ [CHR 0x22] @ ''shaped_input'' @ [CHR 0x22] @ ''.''"

text \<open>
  Lines 176 to 224, the branch taken when \<open>load_prev\<close> is false. \<open>Inl\<close> is a
  \<open>return (-1)\<close>, \<open>Inr\<close> falls through to line 227. The two \<open>find\<close> tests come
  before the two table reads of lines 223 and 224, which repeat the search and so read
  the value of the entry that \<open>find\<close> found.
\<close>

definition explicit_settings :: "NodeHandle \<Rightarrow> state \<Rightarrow> state + state" where
  "explicit_settings nh s0 =
    (case getParam_int nh ''high_voltage'' of
       None \<Rightarrow> Inl (emit (Ros_ERROR ''High voltage must be set.'')
                  (emit (Ros_getParam ''high_voltage'') s0))
     | Some v1 \<Rightarrow>
    let s1 = (emit (Ros_getParam ''high_voltage'') s0)\<lparr>HV := v1\<rparr> in
    (case getParam_double nh ''gain'' of
       None \<Rightarrow> Inl (emit (Ros_ERROR ''Gain must be set.'')
                  (emit (Ros_getParam ''gain'') s1))
     | Some v2 \<Rightarrow>
    let s2 = (emit (Ros_getParam ''gain'') s1)\<lparr>gain := v2\<rparr> in
    (case getParam_int nh ''threshold'' of
       None \<Rightarrow> Inl (emit (Ros_ERROR ''Threshold must be set.'')
                  (emit (Ros_getParam ''threshold'') s2))
     | Some v3 \<Rightarrow>
    let s3 = (emit (Ros_getParam ''threshold'') s2)\<lparr>threshold := v3\<rparr> in
    (case getParam_double nh ''shaping_time'' of
       None \<Rightarrow> Inl (emit (Ros_ERROR ''Shaping time must be set.'')
                  (emit (Ros_getParam ''shaping_time'') s3))
     | Some v4 \<Rightarrow>
    let s4 = (emit (Ros_getParam ''shaping_time'') s3)\<lparr>shaping_time := v4\<rparr> in
    (case getParam_string nh ''input_and_polarity'' of
       None \<Rightarrow> Inl (emit (Ros_ERROR ''Input and Polartity must be set.'')
                  (emit (Ros_getParam ''input_and_polarity'') s4))
     | Some v5 \<Rightarrow>
    let s5 = (emit (Ros_getParam ''input_and_polarity'') s4)\<lparr>input_polarity := v5\<rparr> in
    (case getParam_int nh ''ramping_time'' of
       None \<Rightarrow> Inl (emit (Ros_ERROR ''Ramping time must be set.'')
                  (emit (Ros_getParam ''ramping_time'') s5))
     | Some v6 \<Rightarrow>
    let s6 = (emit (Ros_getParam ''ramping_time'') s5)\<lparr>ramp := v6\<rparr>;
        s7 = fill_maps s6 in
    (case map_find (shape_map s7) (shaping_time s7) of
       None \<Rightarrow> Inl (emit (Ros_ERROR shaping_time_invalid) s7)
     | Some e1 \<Rightarrow>
    (case input_map s7 (input_polarity s7) of
       None \<Rightarrow> Inl (emit (Ros_ERROR input_polarity_invalid) s7)
     | Some c2 \<Rightarrow>
       Inr (s7\<lparr>real_shaping_time := snd e1, real_input := c2\<rparr>)))))))))"

text \<open>Lines 227 to 233: the five settings that have defaults.\<close>

definition defaulted_settings :: "NodeHandle \<Rightarrow> state \<Rightarrow> state" where
  "defaulted_settings nh s0 =
    (let s1 = (emit (Ros_param ''port'') s0)
                \<lparr>port := param (getParam_string nh ''port'') ''/dev/ttyUSB0''\<rparr>;
         s2 = (emit (Ros_param ''baud'') s1)
                \<lparr>baud := param (getParam_int nh ''baud'') 115200\<rparr>;
         s3 = (emit (Ros_param ''use_GM_mode'') s2)
                \<lparr>GMmode := param (getParam_bool nh ''use_GM_mode'') False\<rparr>;
         s4 = (emit (Ros_param ''imeadiate_mode'') s3)
                \<lparr>imeadiate := param (getParam_bool nh ''imeadiate_mode'') False\<rparr>
     in (emit (Ros_param ''detector_frame'') s4)
          \<lparr>detector_frame := param (getParam_string nh ''detector_frame'') ''rad_link''\<rparr>)"

definition get_params :: "NodeHandle \<Rightarrow> state \<Rightarrow> int \<times> state" where
  "get_params nh s0 =
    (let s1 = (emit (Ros_param ''load_previous_settings'') s0)
                \<lparr>load_prev := param (getParam_bool nh ''load_previous_settings'') False\<rparr>
     in if \<not> load_prev s1
        then (case explicit_settings nh s1 of
                Inl s2 \<Rightarrow> (- 1, s2)
              | Inr s2 \<Rightarrow> (1, defaulted_settings nh s2))
        else (1, defaulted_settings nh s1))"

subsection \<open>main\<close>

text \<open>
  Lines 95 to 107: the device settings. Lines 109 to 116: the immediate start.
\<close>

definition apply_settings :: "state \<Rightarrow> state" where
  "apply_settings s =
    (if load_prev s then emit Ursa_loadPrevSettings s
     else emit (Ursa_setVoltage (HV s))
         (emit (Ursa_setRamp (ramp s))
         (emit (Ursa_setInput (real_input s))
         (emit (Ursa_setShapingTime (real_shaping_time s))
         (emit (Ursa_setThresholdOffset (threshold s))
         (emit (Ursa_setGain (gain s)) s))))))"

definition immediate_start :: "state \<Rightarrow> state" where
  "immediate_start s =
    (if imeadiate s
     then emit Ros_timer_start (emit (if GMmode s then Ursa_startGM else Ursa_startAcquire) s)
     else s)"

text \<open>
  \<open>main\<close> returns its exit value and the final state. The answer of
  \<open>my_ursa->connected()\<close> is the argument \<open>is_connected\<close>. \<open>ros::spin()\<close> is one
  event: the callbacks that run inside it are not part of \<open>main\<close>. The guard of line 72
  is C++'s \<open>!\<close> on an \<open>int\<close>: true exactly for 0. Falling off the end of \<open>main\<close>
  returns 0.
\<close>

definition main :: "NodeHandle \<Rightarrow> bool \<Rightarrow> state \<Rightarrow> int \<times> state" where
  "main nh is_connected s0 =
    (case get_params nh s0 of (r, s1) \<Rightarrow>
     if r = 0 then (- 1, s1)
     else
       let s2 = emit Ursa_connected (emit Ursa_connect
                  (emit (Ursa_new (port s1) (baud s1)) s1)) in
       if \<not> is_connected then (- 1, s2)
       else
         let s3 = emit (Ros_INFO ''URSA Connected'') s2;
             s4 = emit (Ros_advertise (if GMmode s3 then ''counts'' else ''spectra'')) s3;
             s5 = emit Ros_createTimer
                    (emit (Ros_advertiseService ''clearSpectra'')
                    (emit (Ros_advertiseService ''stopAcquire'')
                    (emit (Ros_advertiseService ''startAcquire'') s4)));
             s6 = immediate_start (apply_settings s5)
         in (0, emit (Ursa_setVoltage 0) (emit Ursa_stopAcquire (emit Ros_spin s6))))"

section \<open>Vocabulary of the properties\<close>

subsection \<open>Parameter sets\<close>

text \<open>
  No parameter set at all; only \<open>load_previous_settings\<close> set to true; that together
  with values that would not pass validation and another port; only \<open>high_voltage\<close>;
  and all six device settings, with the shaping time and the input label left open.
\<close>

definition nh_empty :: NodeHandle where
  "nh_empty = \<lparr> getParam_bool = Map.empty, getParam_int = Map.empty,
                 getParam_double = Map.empty, getParam_string = Map.empty \<rparr>"

definition nh_load_prev_only :: NodeHandle where
  "nh_load_prev_only = nh_empty\<lparr>getParam_bool := [''load_previous_settings'' \<mapsto> True]\<rparr>"

definition nh_load_prev_other :: NodeHandle where
  "nh_load_prev_other =
     \<lparr> getParam_bool = [''load_previous_settings'' \<mapsto> True],
       getParam_int = Map.empty,
       getParam_double = [''shaping_time'' \<mapsto> Num 3],
       getParam_string = [''input_and_polarity'' \<mapsto> ''input3_negative'',
                          ''port'' \<mapsto> ''/dev/ttyS1''] \<rparr>"

definition nh_high_voltage_only :: NodeHandle where
  "nh_high_voltage_only = nh_empty\<lparr>getParam_int := [''high_voltage'' \<mapsto> 900]\<rparr>"

definition nh_explicit :: "double \<Rightarrow> string \<Rightarrow> NodeHandle" where
  "nh_explicit t p =
     \<lparr> getParam_bool = Map.empty,
       getParam_int = [''high_voltage'' \<mapsto> 900, ''threshold'' \<mapsto> 2, ''ramping_time'' \<mapsto> 6],
       getParam_double = [''gain'' \<mapsto> Num 3, ''shaping_time'' \<mapsto> t],
       getParam_string = [''input_and_polarity'' \<mapsto> p] \<rparr>"

text \<open>A parameter set with its input label replaced, everything else kept.\<close>

definition with_polarity :: "NodeHandle \<Rightarrow> string \<Rightarrow> NodeHandle" where
  "with_polarity nh l =
     nh\<lparr>getParam_string := (getParam_string nh)(''input_and_polarity'' \<mapsto> l)\<rparr>"

subsection \<open>The tables and the field order of the specification\<close>

text \<open>
  The two tables as the specification lists them, to be compared with what
  \<open>fill_maps\<close> builds.
\<close>

definition spec_ShapingTimeTable :: "(double \<times> shaping_time) list" where
  "spec_ShapingTimeTable =
     [(Num 0.25, TIME0_25uS), (Num 0.5, TIME0_5uS), (Num 1, TIME1uS), (Num 2, TIME2uS),
      (Num 4, TIME4uS), (Num 6, TIME6uS), (Num 8, TIME8uS), (Num 10, TIME10uS)]"

definition spec_InputPolarityTable :: "(string \<times> inputs) list" where
  "spec_InputPolarityTable =
     [(''input1_negative'', INPUT1NEG), (''input1_positive'', INPUT1POS),
      (''input2_negative'', INPUT2NEG), (''input2_positive'', INPUT1POS),
      (''shaped_input'', INPUTXPOS)]"

text \<open>
  The six required fields in the order highVoltage, gain, threshold, shapingTime,
  inputPolarity, ramp: the key, the message that reports the field missing, and whether
  the typed getter finds no value.
\<close>

definition required :: "NodeHandle \<Rightarrow> (string \<times> string \<times> bool) list" where
  "required nh =
     [(''high_voltage'', ''High voltage must be set.'',
         getParam_int nh ''high_voltage'' = None),
      (''gain'', ''Gain must be set.'',
         getParam_double nh ''gain'' = None),
      (''threshold'', ''Threshold must be set.'',
         getParam_int nh ''threshold'' = None),
      (''shaping_time'', ''Shaping time must be set.'',
         getParam_double nh ''shaping_time'' = None),
      (''input_and_polarity'', ''Input and Polartity must be set.'',
         getParam_string nh ''input_and_polarity'' = None),
      (''ramping_time'', ''Ramping time must be set.'',
         getParam_int nh ''ramping_time'' = None)]"

text \<open>The first missing field, and the keys up to and including it.\<close>

fun first_absent :: "(string \<times> string \<times> bool) list \<Rightarrow> (string \<times> string) option" where
  "first_absent [] = None"
| "first_absent ((k, m, a) # xs) = (if a then Some (k, m) else first_absent xs)"

fun keys_read :: "(string \<times> string \<times> bool) list \<Rightarrow> string list" where
  "keys_read [] = []"
| "keys_read ((k, m, a) # xs) = k # (if a then [] else keys_read xs)"

text \<open>
  The inputs on which \<open>get_params\<close> has to fail: \<open>load_previous_settings\<close> is false,
  and a required field is missing, or the shaping time does not pass the test of line 209,
  or the input label does not pass the test of line 215. The shaping times that pass the
  test of line 209 are the eight keys and NaN.
\<close>

definition validation_fails :: "NodeHandle \<Rightarrow> bool" where
  "validation_fails nh =
     (\<not> param (getParam_bool nh ''load_previous_settings'') False
      \<and> (first_absent (required nh) \<noteq> None
         \<or> getParam_double nh ''shaping_time''
              \<notin> Some ` {NaN, Num 0.25, Num 0.5, Num 1, Num 2, Num 4, Num 6, Num 8, Num 10}
         \<or> getParam_string nh ''input_and_polarity''
              \<notin> Some ` {''input1_negative'', ''input1_positive'', ''input2_negative'',
                         ''input2_positive'', ''shaped_input''}))"

text \<open>The number of required fields that are set before the first missing one.\<close>

fun found_before :: "(string \<times> string \<times> bool) list \<Rightarrow> nat" where
  "found_before [] = 0"
| "found_before ((k, m, a) # xs) = (if a then 0 else Suc (found_before xs))"

text \<open>The state after lines 176 to 205 when all six fields are set.\<close>

definition six_read ::
  "int \<Rightarrow> double \<Rightarrow> int \<Rightarrow> double \<Rightarrow> string \<Rightarrow> int \<Rightarrow> state \<Rightarrow> state" where
  "six_read v1 v2 v3 v4 v5 v6 s =
     s\<lparr> HV := v1, gain := v2, threshold := v3, shaping_time := v4,
        input_polarity := v5, ramp := v6,
        trace := trace s @ [Ros_getParam ''high_voltage'', Ros_getParam ''gain'',
                            Ros_getParam ''threshold'', Ros_getParam ''shaping_time'',
                            Ros_getParam ''input_and_polarity'',
                            Ros_getParam ''ramping_time''] \<rparr>"

section \<open>Lemmas about the functions\<close>

subsection \<open>The paths of get\_params\<close>

lemma explicit_settings_last:
  "explicit_settings nh s = Inl s' \<Longrightarrow> \<exists>m. last (trace s') = Ros_ERROR m"
  by (auto simp: explicit_settings_def emit_def Let_def split: option.splits)

lemma defaulted_settings_last:
  "last (trace (defaulted_settings nh s)) = Ros_param ''detector_frame''"
  by (simp add: defaulted_settings_def emit_def Let_def)

lemma explicit_settings_no_high_voltage:
  "getParam_int nh ''high_voltage'' = None \<Longrightarrow>
   explicit_settings nh s =
     Inl (s\<lparr>trace := trace s @ [Ros_getParam ''high_voltage'',
                                  Ros_ERROR ''High voltage must be set.'']\<rparr>)"
  by (simp add: explicit_settings_def emit_def)

lemma explicit_settings_no_gain:
  "getParam_int nh ''high_voltage'' = Some v1 \<Longrightarrow>
   getParam_double nh ''gain'' = None \<Longrightarrow>
   explicit_settings nh s =
     Inl (s\<lparr>HV := v1,
            trace := trace s @ [Ros_getParam ''high_voltage'', Ros_getParam ''gain'',
                                Ros_ERROR ''Gain must be set.'']\<rparr>)"
  by (simp add: explicit_settings_def emit_def)

lemma explicit_settings_no_threshold:
  "getParam_int nh ''high_voltage'' = Some v1 \<Longrightarrow>
   getParam_double nh ''gain'' = Some v2 \<Longrightarrow>
   getParam_int nh ''threshold'' = None \<Longrightarrow>
   explicit_settings nh s =
     Inl (s\<lparr>HV := v1, gain := v2,
            trace := trace s @ [Ros_getParam ''high_voltage'', Ros_getParam ''gain'',
                                Ros_getParam ''threshold'',
                                Ros_ERROR ''Threshold must be set.'']\<rparr>)"
  by (simp add: explicit_settings_def emit_def)

lemma explicit_settings_no_shaping_time:
  "getParam_int nh ''high_voltage'' = Some v1 \<Longrightarrow>
   getParam_double nh ''gain'' = Some v2 \<Longrightarrow>
   getParam_int nh ''threshold'' = Some v3 \<Longrightarrow>
   getParam_double nh ''shaping_time'' = None \<Longrightarrow>
   explicit_settings nh s =
     Inl (s\<lparr>HV := v1, gain := v2, threshold := v3,
            trace := trace s @ [Ros_getParam ''high_voltage'', Ros_getParam ''gain'',
                                Ros_getParam ''threshold'', Ros_getParam ''shaping_time'',
                                Ros_ERROR ''Shaping time must be set.'']\<rparr>)"
  by (simp add: explicit_settings_def emit_def)

lemma explicit_settings_no_input_and_polarity:
  "getParam_int nh ''high_voltage'' = Some v1 \<Longrightarrow>
   getParam_double nh ''gain'' = Some v2 \<Longrightarrow>
   getParam_int nh ''threshold'' = Some v3 \<Longrightarrow>
   getParam_double nh ''shaping_time'' = Some v4 \<Longrightarrow>
   getParam_string nh ''input_and_polarity'' = None \<Longrightarrow>
   explicit_settings nh s =
     Inl (s\<lparr>HV := v1, gain := v2, threshold := v3, shaping_time := v4,
            trace := trace s @ [Ros_getParam ''high_voltage'', Ros_getParam ''gain'',
                                Ros_getParam ''threshold'', Ros_getParam ''shaping_time'',
                                Ros_getParam ''input_and_polarity'',
                                Ros_ERROR ''Input and Polartity must be set.'']\<rparr>)"
  by (simp add: explicit_settings_def emit_def)

lemma explicit_settings_no_ramping_time:
  "getParam_int nh ''high_voltage'' = Some v1 \<Longrightarrow>
   getParam_double nh ''gain'' = Some v2 \<Longrightarrow>
   getParam_int nh ''threshold'' = Some v3 \<Longrightarrow>
   getParam_double nh ''shaping_time'' = Some v4 \<Longrightarrow>
   getParam_string nh ''input_and_polarity'' = Some v5 \<Longrightarrow>
   getParam_int nh ''ramping_time'' = None \<Longrightarrow>
   explicit_settings nh s =
     Inl (s\<lparr>HV := v1, gain := v2, threshold := v3, shaping_time := v4,
            input_polarity := v5,
            trace := trace s @ [Ros_getParam ''high_voltage'', Ros_getParam ''gain'',
                                Ros_getParam ''threshold'', Ros_getParam ''shaping_time'',
                                Ros_getParam ''input_and_polarity'',
                                Ros_getParam ''ramping_time'',
                                Ros_ERROR ''Ramping time must be set.'']\<rparr>)"
  by (simp add: explicit_settings_def emit_def)

lemma get_params_explicit:
  "param (getParam_bool nh ''load_previous_settings'') False = False \<Longrightarrow>
   get_params nh s =
     (case explicit_settings nh
             (s\<lparr>trace := trace s @ [Ros_param ''load_previous_settings''],
                load_prev := False\<rparr>) of
        Inl s2 \<Rightarrow> (- 1, s2)
      | Inr s2 \<Rightarrow> (1, defaulted_settings nh s2))"
  by (simp add: get_params_def emit_def)

lemma get_params_load_prev:
  "param (getParam_bool nh ''load_previous_settings'') False = True \<Longrightarrow>
   get_params nh s =
     (1, defaulted_settings nh
           (s\<lparr>trace := trace s @ [Ros_param ''load_previous_settings''],
              load_prev := True\<rparr>))"
  by (simp add: get_params_def emit_def)

lemma get_params_load_prev_result:
  assumes "getParam_bool nh ''load_previous_settings'' = Some True"
  shows "get_params nh s =
     (1, s\<lparr> load_prev := True,
            port := param (getParam_string nh ''port'') ''/dev/ttyUSB0'',
            baud := param (getParam_int nh ''baud'') 115200,
            GMmode := param (getParam_bool nh ''use_GM_mode'') False,
            imeadiate := param (getParam_bool nh ''imeadiate_mode'') False,
            detector_frame := param (getParam_string nh ''detector_frame'') ''rad_link'',
            trace := trace s @ [Ros_param ''load_previous_settings'', Ros_param ''port'',
              Ros_param ''baud'', Ros_param ''use_GM_mode'', Ros_param ''imeadiate_mode'',
              Ros_param ''detector_frame''] \<rparr>)"
  using assms
  by (simp add: get_params_def defaulted_settings_def emit_def param_def Let_def)

subsection \<open>The tables\<close>

lemma shape_map_fill_maps:
  "shape_map s = [] \<Longrightarrow> shape_map (fill_maps s) = spec_ShapingTimeTable"
  by (simp add: fill_maps_def spec_ShapingTimeTable_def)

lemma map_find_NaN:
  "map_find spec_ShapingTimeTable NaN = Some (Num 0.25, TIME0_25uS)"
  by (simp add: map_find_def spec_ShapingTimeTable_def)

lemma map_find_PInf: "map_find spec_ShapingTimeTable PInf = None"
  by (simp add: map_find_def spec_ShapingTimeTable_def)

lemma map_find_NInf: "map_find spec_ShapingTimeTable NInf = None"
  by (simp add: map_find_def spec_ShapingTimeTable_def)

lemma map_find_Num:
  "map_find spec_ShapingTimeTable (Num x) =
     map_option (Pair (Num x)) (map_of spec_ShapingTimeTable (Num x))"
  by (simp add: map_find_def spec_ShapingTimeTable_def)

lemma input_map_fill_maps:
  "input_map (fill_maps s) = (input_map s) ++ map_of spec_InputPolarityTable"
  by (rule ext) (simp add: fill_maps_def spec_InputPolarityTable_def map_add_def)

lemma input_map_positive:
  "input_map (fill_maps s) ''input1_positive'' = Some INPUT1POS"
  "input_map (fill_maps s) ''input2_positive'' = Some INPUT1POS"
  by (simp_all add: fill_maps_def)

lemma shaping_table_None:
  "(map_of spec_ShapingTimeTable t = None) =
   (t \<notin> {Num 0.25, Num 0.5, Num 1, Num 2, Num 4, Num 6, Num 8, Num 10})"
  by (simp add: spec_ShapingTimeTable_def)

lemma map_find_None:
  "(map_find spec_ShapingTimeTable t = None) =
   (t \<notin> {NaN, Num 0.25, Num 0.5, Num 1, Num 2, Num 4, Num 6, Num 8, Num 10})"
proof (cases t)
  case (Num x)
  have "(map_find spec_ShapingTimeTable (Num x) = None) =
        (map_of spec_ShapingTimeTable (Num x) = None)"
    by (simp only: map_find_Num option.map_disc_iff)
  also have "\<dots> = (Num x \<notin> {Num 0.25, Num 0.5, Num 1, Num 2, Num 4, Num 6, Num 8, Num 10})"
    by (rule shaping_table_None)
  finally show ?thesis
    using Num by simp
next
  case PInf
  then show ?thesis by (simp add: map_find_PInf)
next
  case NInf
  then show ?thesis by (simp add: map_find_NInf)
next
  case NaN
  then show ?thesis by (simp add: map_find_NaN)
qed

lemma map_find_key:
  assumes "t \<in> {Num 0.25, Num 0.5, Num 1, Num 2, Num 4, Num 6, Num 8, Num 10}"
    and "map_of spec_ShapingTimeTable t = Some c"
  shows "map_find spec_ShapingTimeTable t = Some (t, c)"
proof (cases t)
  case (Num x)
  with assms(2) show ?thesis
    by (simp only: map_find_Num option.map)
qed (use assms(1) in simp_all)

lemma polarity_table_None:
  "(map_of spec_InputPolarityTable p = None) =
   (p \<notin> {''input1_negative'', ''input1_positive'', ''input2_negative'',
          ''input2_positive'', ''shaped_input''})"
  by (simp add: spec_InputPolarityTable_def)

lemma shaping_table_Some:
  assumes "t \<in> {Num 0.25, Num 0.5, Num 1, Num 2, Num 4, Num 6, Num 8, Num 10}"
  obtains c where "map_of spec_ShapingTimeTable t = Some c"
proof (cases "map_of spec_ShapingTimeTable t")
  case None
  then have "t \<notin> {Num 0.25, Num 0.5, Num 1, Num 2, Num 4, Num 6, Num 8, Num 10}"
    by (rule iffD1 [OF shaping_table_None])
  from this assms show ?thesis by (rule notE)
next
  case (Some c)
  then show ?thesis by (rule that)
qed

lemma polarity_table_Some:
  assumes "p \<in> {''input1_negative'', ''input1_positive'', ''input2_negative'',
                ''input2_positive'', ''shaped_input''}"
  obtains c where "map_of spec_InputPolarityTable p = Some c"
proof (cases "map_of spec_InputPolarityTable p")
  case None
  then have "p \<notin> {''input1_negative'', ''input1_positive'', ''input2_negative'',
                ''input2_positive'', ''shaped_input''}"
    by (rule iffD1 [OF polarity_table_None])
  from this assms show ?thesis by (rule notE)
next
  case (Some c)
  then show ?thesis by (rule that)
qed

subsection \<open>Variables that a function leaves alone\<close>

lemma init_state_fields:
  "baud (init_state sti ini) = 0"
  "port (init_state sti ini) = []"
  "detector_frame (init_state sti ini) = []"
  "HV (init_state sti ini) = 0"
  "gain (init_state sti ini) = Num 0"
  "threshold (init_state sti ini) = 0"
  "shaping_time (init_state sti ini) = Num 1"
  "real_shaping_time (init_state sti ini) = sti"
  "input_polarity (init_state sti ini) = []"
  "real_input (init_state sti ini) = ini"
  "ramp (init_state sti ini) = 6"
  "shape_map (init_state sti ini) = []"
  "input_map (init_state sti ini) = Map.empty"
  "load_prev (init_state sti ini) = False"
  "GMmode (init_state sti ini) = False"
  "imeadiate (init_state sti ini) = False"
  "trace (init_state sti ini) = []"
  by (simp_all add: init_state_def)

lemma fill_maps_keeps:
  "trace (fill_maps s) = trace s"
  "baud (fill_maps s) = baud s"
  "port (fill_maps s) = port s"
  "detector_frame (fill_maps s) = detector_frame s"
  "HV (fill_maps s) = HV s"
  "gain (fill_maps s) = gain s"
  "threshold (fill_maps s) = threshold s"
  "shaping_time (fill_maps s) = shaping_time s"
  "real_shaping_time (fill_maps s) = real_shaping_time s"
  "input_polarity (fill_maps s) = input_polarity s"
  "real_input (fill_maps s) = real_input s"
  "ramp (fill_maps s) = ramp s"
  "load_prev (fill_maps s) = load_prev s"
  "GMmode (fill_maps s) = GMmode s"
  "imeadiate (fill_maps s) = imeadiate s"
  by (simp_all add: fill_maps_def)

lemma defaulted_settings_keeps:
  "HV (defaulted_settings nh s) = HV s"
  "gain (defaulted_settings nh s) = gain s"
  "threshold (defaulted_settings nh s) = threshold s"
  "shaping_time (defaulted_settings nh s) = shaping_time s"
  "real_shaping_time (defaulted_settings nh s) = real_shaping_time s"
  "input_polarity (defaulted_settings nh s) = input_polarity s"
  "real_input (defaulted_settings nh s) = real_input s"
  "ramp (defaulted_settings nh s) = ramp s"
  "load_prev (defaulted_settings nh s) = load_prev s"
  by (simp_all add: defaulted_settings_def emit_def Let_def)

lemma defaulted_settings_writes:
  "port (defaulted_settings nh s) = param (getParam_string nh ''port'') ''/dev/ttyUSB0''"
  "baud (defaulted_settings nh s) = param (getParam_int nh ''baud'') 115200"
  "GMmode (defaulted_settings nh s) = param (getParam_bool nh ''use_GM_mode'') False"
  "imeadiate (defaulted_settings nh s) = param (getParam_bool nh ''imeadiate_mode'') False"
  "detector_frame (defaulted_settings nh s) =
     param (getParam_string nh ''detector_frame'') ''rad_link''"
  "trace (defaulted_settings nh s) =
     trace s @ [Ros_param ''port'', Ros_param ''baud'', Ros_param ''use_GM_mode'',
                Ros_param ''imeadiate_mode'', Ros_param ''detector_frame'']"
  by (simp_all add: defaulted_settings_def emit_def Let_def)

lemma with_polarity_getters:
  "getParam_bool (with_polarity nh l) = getParam_bool nh"
  "getParam_int (with_polarity nh l) = getParam_int nh"
  "getParam_double (with_polarity nh l) = getParam_double nh"
  "getParam_string (with_polarity nh l) ''input_and_polarity'' = Some l"
  by (simp_all add: with_polarity_def)

subsection \<open>All six fields set\<close>

lemma six_read_eq:
  "(emit (Ros_getParam ''ramping_time'')
     ((emit (Ros_getParam ''input_and_polarity'')
       ((emit (Ros_getParam ''shaping_time'')
         ((emit (Ros_getParam ''threshold'')
           ((emit (Ros_getParam ''gain'')
             ((emit (Ros_getParam ''high_voltage'') s)\<lparr>HV := v1\<rparr>))\<lparr>gain := v2\<rparr>))
          \<lparr>threshold := v3\<rparr>))\<lparr>shaping_time := v4\<rparr>))\<lparr>input_polarity := v5\<rparr>))
     \<lparr>ramp := v6\<rparr> = six_read v1 v2 v3 v4 v5 v6 s"
  by (simp add: emit_def six_read_def)

lemma explicit_settings_all_present:
  assumes "getParam_int nh ''high_voltage'' = Some v1"
    and "getParam_double nh ''gain'' = Some v2"
    and "getParam_int nh ''threshold'' = Some v3"
    and "getParam_double nh ''shaping_time'' = Some v4"
    and "getParam_string nh ''input_and_polarity'' = Some v5"
    and "getParam_int nh ''ramping_time'' = Some v6"
  shows "explicit_settings nh s =
    (case map_find (shape_map (fill_maps (six_read v1 v2 v3 v4 v5 v6 s))) v4 of
       None \<Rightarrow> Inl (emit (Ros_ERROR shaping_time_invalid)
                    (fill_maps (six_read v1 v2 v3 v4 v5 v6 s)))
     | Some e1 \<Rightarrow>
      (case (input_map s ++ map_of spec_InputPolarityTable) v5 of
         None \<Rightarrow> Inl (emit (Ros_ERROR input_polarity_invalid)
                    (fill_maps (six_read v1 v2 v3 v4 v5 v6 s)))
       | Some c2 \<Rightarrow> Inr ((fill_maps (six_read v1 v2 v3 v4 v5 v6 s))
                          \<lparr>real_shaping_time := snd e1, real_input := c2\<rparr>)))"
proof -
  have sel: "input_map (six_read v1 v2 v3 v4 v5 v6 s) = input_map s"
    "shaping_time (fill_maps (six_read v1 v2 v3 v4 v5 v6 s)) = v4"
    "input_polarity (fill_maps (six_read v1 v2 v3 v4 v5 v6 s)) = v5"
    by (simp_all add: six_read_def fill_maps_def)
  show ?thesis
    unfolding explicit_settings_def
    by (simp only: assms option.case Let_def six_read_eq input_map_fill_maps sel)
qed

lemma get_params_all_present:
  assumes off: "param (getParam_bool nh ''load_previous_settings'') False = False"
    and present: "getParam_int nh ''high_voltage'' = Some v1"
      "getParam_double nh ''gain'' = Some v2"
      "getParam_int nh ''threshold'' = Some v3"
      "getParam_double nh ''shaping_time'' = Some t"
      "getParam_string nh ''input_and_polarity'' = Some p"
      "getParam_int nh ''ramping_time'' = Some v6"
    and empty: "shape_map s = []" "input_map s = Map.empty"
  shows "get_params nh s =
    (case map_find spec_ShapingTimeTable t of
       None \<Rightarrow> (- 1, emit (Ros_ERROR shaping_time_invalid) (fill_maps (six_read v1 v2 v3 t p v6
                (s\<lparr>trace := trace s @ [Ros_param ''load_previous_settings''],
                   load_prev := False\<rparr>))))
     | Some e1 \<Rightarrow>
      (case map_of spec_InputPolarityTable p of
         None \<Rightarrow> (- 1, emit (Ros_ERROR input_polarity_invalid) (fill_maps (six_read v1 v2 v3 t p v6
                (s\<lparr>trace := trace s @ [Ros_param ''load_previous_settings''],
                   load_prev := False\<rparr>))))
       | Some c2 \<Rightarrow>
           (1, defaulted_settings nh ((fill_maps (six_read v1 v2 v3 t p v6
                (s\<lparr>trace := trace s @ [Ros_param ''load_previous_settings''],
                   load_prev := False\<rparr>)))\<lparr>real_shaping_time := snd e1, real_input := c2\<rparr>))))"
proof -
  have "shape_map (six_read v1 v2 v3 t p v6
          (s\<lparr>trace := trace s @ [Ros_param ''load_previous_settings''],
             load_prev := False\<rparr>)) = []"
    by (simp add: six_read_def empty)
  then have e: "shape_map (fill_maps (six_read v1 v2 v3 t p v6
          (s\<lparr>trace := trace s @ [Ros_param ''load_previous_settings''],
             load_prev := False\<rparr>))) = spec_ShapingTimeTable"
    by (rule shape_map_fill_maps)
  have e': "input_map (s\<lparr>trace := trace s @ [Ros_param ''load_previous_settings''],
                   load_prev := False\<rparr>) ++ map_of spec_InputPolarityTable = map_of spec_InputPolarityTable"
    by (simp add: empty)
  show ?thesis
    unfolding get_params_explicit [OF off] explicit_settings_all_present [OF present] e e'
    by (cases "map_find spec_ShapingTimeTable t"; cases "map_of spec_InputPolarityTable p")
       (simp_all only: option.case sum.case)
qed

lemma failure_trace:
  "trace (emit (Ros_ERROR m) (fill_maps (six_read v1 v2 v3 t p v6
      ((init_state sti ini)\<lparr>trace := trace (init_state sti ini)
                                 @ [Ros_param ''load_previous_settings''],
                             load_prev := False\<rparr>)))) =
   [Ros_param ''load_previous_settings'', Ros_getParam ''high_voltage'',
    Ros_getParam ''gain'', Ros_getParam ''threshold'', Ros_getParam ''shaping_time'',
    Ros_getParam ''input_and_polarity'', Ros_getParam ''ramping_time'', Ros_ERROR m]"
  by (simp add: emit_def fill_maps_keeps six_read_def init_state_def)

subsection \<open>The inputs, by the path that get\_params takes\<close>

lemma get_params_paths:
  obtains (previous) "param (getParam_bool nh ''load_previous_settings'') False = True"
  | (no_high_voltage)
      "param (getParam_bool nh ''load_previous_settings'') False = False"
      "getParam_int nh ''high_voltage'' = None"
  | (no_gain) v1 where
      "param (getParam_bool nh ''load_previous_settings'') False = False"
      "getParam_int nh ''high_voltage'' = Some v1"
      "getParam_double nh ''gain'' = None"
  | (no_threshold) v1 v2 where
      "param (getParam_bool nh ''load_previous_settings'') False = False"
      "getParam_int nh ''high_voltage'' = Some v1"
      "getParam_double nh ''gain'' = Some v2"
      "getParam_int nh ''threshold'' = None"
  | (no_shaping_time) v1 v2 v3 where
      "param (getParam_bool nh ''load_previous_settings'') False = False"
      "getParam_int nh ''high_voltage'' = Some v1"
      "getParam_double nh ''gain'' = Some v2"
      "getParam_int nh ''threshold'' = Some v3"
      "getParam_double nh ''shaping_time'' = None"
  | (no_input_and_polarity) v1 v2 v3 t where
      "param (getParam_bool nh ''load_previous_settings'') False = False"
      "getParam_int nh ''high_voltage'' = Some v1"
      "getParam_double nh ''gain'' = Some v2"
      "getParam_int nh ''threshold'' = Some v3"
      "getParam_double nh ''shaping_time'' = Some t"
      "getParam_string nh ''input_and_polarity'' = None"
  | (no_ramping_time) v1 v2 v3 t p where
      "param (getParam_bool nh ''load_previous_settings'') False = False"
      "getParam_int nh ''high_voltage'' = Some v1"
      "getParam_double nh ''gain'' = Some v2"
      "getParam_int nh ''threshold'' = Some v3"
      "getParam_double nh ''shaping_time'' = Some t"
      "getParam_string nh ''input_and_polarity'' = Some p"
      "getParam_int nh ''ramping_time'' = None"
  | (all_set) v1 v2 v3 t p v6 where
      "param (getParam_bool nh ''load_previous_settings'') False = False"
      "getParam_int nh ''high_voltage'' = Some v1"
      "getParam_double nh ''gain'' = Some v2"
      "getParam_int nh ''threshold'' = Some v3"
      "getParam_double nh ''shaping_time'' = Some t"
      "getParam_string nh ''input_and_polarity'' = Some p"
      "getParam_int nh ''ramping_time'' = Some v6"
proof (cases "param (getParam_bool nh ''load_previous_settings'') False")
  case True
  then show ?thesis
    by (simp only: eq_True previous)
next
  case False
  then have off: "param (getParam_bool nh ''load_previous_settings'') False = False"
    by simp
  show ?thesis
  proof (cases "getParam_int nh ''high_voltage''")
    case None
    with off show ?thesis by (rule no_high_voltage)
  next
    case v1: (Some v1)
    show ?thesis
    proof (cases "getParam_double nh ''gain''")
      case None
      with off v1 show ?thesis by (rule no_gain)
    next
      case v2: (Some v2)
      show ?thesis
      proof (cases "getParam_int nh ''threshold''")
        case None
        with off v1 v2 show ?thesis by (rule no_threshold)
      next
        case v3: (Some v3)
        show ?thesis
        proof (cases "getParam_double nh ''shaping_time''")
          case None
          with off v1 v2 v3 show ?thesis by (rule no_shaping_time)
        next
          case v4: (Some t)
          show ?thesis
          proof (cases "getParam_string nh ''input_and_polarity''")
            case None
            with off v1 v2 v3 v4 show ?thesis by (rule no_input_and_polarity)
          next
            case v5: (Some p)
            show ?thesis
            proof (cases "getParam_int nh ''ramping_time''")
              case None
              with off v1 v2 v3 v4 v5 show ?thesis by (rule no_ramping_time)
            next
              case (Some v6)
              with off v1 v2 v3 v4 v5 show ?thesis by (rule all_set)
            qed
          qed
        qed
      qed
    qed
  qed
qed

lemma Some_in_image: "(Some x \<in> Some ` A) = (x \<in> A)"
  by auto


lemma validation_fails_all_set:
  assumes "param (getParam_bool nh ''load_previous_settings'') False = False"
    and "getParam_int nh ''high_voltage'' = Some v1"
    and "getParam_double nh ''gain'' = Some v2"
    and "getParam_int nh ''threshold'' = Some v3"
    and "getParam_double nh ''shaping_time'' = Some t"
    and "getParam_string nh ''input_and_polarity'' = Some p"
    and "getParam_int nh ''ramping_time'' = Some v6"
  shows "validation_fails nh =
      (map_find spec_ShapingTimeTable t = None \<or> map_of spec_InputPolarityTable p = None)"
    and "found_before (required nh) = 6"
proof -
  have absent: "first_absent (required nh) = None"
    using assms by (simp add: required_def)
  show "validation_fails nh =
      (map_find spec_ShapingTimeTable t = None \<or> map_of spec_InputPolarityTable p = None)"
    unfolding validation_fails_def absent assms Some_in_image map_find_None
      polarity_table_None
    by simp
  show "found_before (required nh) = 6"
    using assms by (simp add: required_def)
qed

lemma six_read_fields:
  "HV (six_read v1 v2 v3 t p v6 s) = v1"
  "gain (six_read v1 v2 v3 t p v6 s) = v2"
  "threshold (six_read v1 v2 v3 t p v6 s) = v3"
  "shaping_time (six_read v1 v2 v3 t p v6 s) = t"
  "input_polarity (six_read v1 v2 v3 t p v6 s) = p"
  "ramp (six_read v1 v2 v3 t p v6 s) = v6"
  "load_prev (six_read v1 v2 v3 t p v6 s) = load_prev s"
  "real_shaping_time (six_read v1 v2 v3 t p v6 s) = real_shaping_time s"
  "real_input (six_read v1 v2 v3 t p v6 s) = real_input s"
  "port (six_read v1 v2 v3 t p v6 s) = port s"
  "baud (six_read v1 v2 v3 t p v6 s) = baud s"
  "detector_frame (six_read v1 v2 v3 t p v6 s) = detector_frame s"
  "GMmode (six_read v1 v2 v3 t p v6 s) = GMmode s"
  "imeadiate (six_read v1 v2 v3 t p v6 s) = imeadiate s"
  by (simp_all add: six_read_def)

text \<open>The return value as a function of the input.\<close>

lemma get_params_return:
  "fst (get_params nh (init_state sti ini)) = (if validation_fails nh then - 1 else 1)"
proof (cases nh rule: get_params_paths)
  case previous
  then show ?thesis
    by (simp add: get_params_load_prev validation_fails_def)
next
  case no_high_voltage
  then show ?thesis
    by (simp add: get_params_explicit explicit_settings_no_high_voltage
          validation_fails_def required_def)
next
  case (no_gain v1)
  then show ?thesis
    by (simp add: get_params_explicit explicit_settings_no_gain
          validation_fails_def required_def)
next
  case (no_threshold v1 v2)
  then show ?thesis
    by (simp add: get_params_explicit explicit_settings_no_threshold
          validation_fails_def required_def)
next
  case (no_shaping_time v1 v2 v3)
  then show ?thesis
    by (simp add: get_params_explicit explicit_settings_no_shaping_time
          validation_fails_def required_def)
next
  case (no_input_and_polarity v1 v2 v3 t)
  then show ?thesis
    by (simp add: get_params_explicit explicit_settings_no_input_and_polarity
          validation_fails_def required_def)
next
  case (no_ramping_time v1 v2 v3 t p)
  then show ?thesis
    by (simp add: get_params_explicit explicit_settings_no_ramping_time
          validation_fails_def required_def)
next
  case (all_set v1 v2 v3 t p v6)
  have empty: "shape_map (init_state sti ini) = []"
    "input_map (init_state sti ini) = Map.empty"
    by (simp_all add: init_state_def)
  note gp = get_params_all_present [OF all_set empty]
  note fails = validation_fails_all_set(1) [OF all_set]
  show ?thesis
    unfolding gp fails
    by (cases "map_find spec_ShapingTimeTable t"; cases "map_of spec_InputPolarityTable p")
       simp_all
qed

subsection \<open>The shaping time test on numbers\<close>

text \<open>
  With all six fields set: a shaping time among the eight keys is accepted with the code
  of its key (given a valid input label), and every other shaping time that is not NaN is
  rejected with the one message that the shaping time must be valid.
\<close>

lemma shaping_time_lookup_numbers:
  assumes off: "param (getParam_bool nh ''load_previous_settings'') False = False"
    and present: "getParam_int nh ''high_voltage'' = Some v1"
      "getParam_double nh ''gain'' = Some v2"
      "getParam_int nh ''threshold'' = Some v3"
      "getParam_double nh ''shaping_time'' = Some t"
      "getParam_string nh ''input_and_polarity'' = Some p"
      "getParam_int nh ''ramping_time'' = Some v6"
  shows "(t \<in> {Num 0.25, Num 0.5, Num 1, Num 2, Num 4, Num 6, Num 8, Num 10}
          \<and> p \<in> {''input1_negative'', ''input1_positive'', ''input2_negative'',
                  ''input2_positive'', ''shaped_input''} \<longrightarrow>
            fst (get_params nh (init_state sti ini)) = 1
          \<and> map_of spec_ShapingTimeTable t =
              Some (real_shaping_time (snd (get_params nh (init_state sti ini)))))
       \<and> (t \<notin> {NaN, Num 0.25, Num 0.5, Num 1, Num 2, Num 4, Num 6, Num 8, Num 10} \<longrightarrow>
            fst (get_params nh (init_state sti ini)) = - 1
          \<and> trace (snd (get_params nh (init_state sti ini))) =
              [Ros_param ''load_previous_settings'', Ros_getParam ''high_voltage'',
               Ros_getParam ''gain'', Ros_getParam ''threshold'',
               Ros_getParam ''shaping_time'', Ros_getParam ''input_and_polarity'',
               Ros_getParam ''ramping_time'', Ros_ERROR shaping_time_invalid])"
proof -
  have empty: "shape_map (init_state sti ini) = []"
    "input_map (init_state sti ini) = Map.empty"
    by (simp_all add: init_state_def)
  note gp = get_params_all_present [OF off present empty]
  show ?thesis
  proof (intro conjI impI)
    assume valid: "t \<in> {Num 0.25, Num 0.5, Num 1, Num 2, Num 4, Num 6, Num 8, Num 10}
      \<and> p \<in> {''input1_negative'', ''input1_positive'', ''input2_negative'',
              ''input2_positive'', ''shaped_input''}"
    from conjunct1 [OF valid]
    obtain c where c: "map_of spec_ShapingTimeTable t = Some c"
      by (rule shaping_table_Some)
    have c1: "map_find spec_ShapingTimeTable t = Some (t, c)"
      by (rule map_find_key [OF conjunct1 [OF valid] c])
    from conjunct2 [OF valid]
    obtain c2 where c2: "map_of spec_InputPolarityTable p = Some c2"
      by (rule polarity_table_Some)
    show "fst (get_params nh (init_state sti ini)) = 1"
      by (simp only: gp c1 c2 option.case fst_conv)
    show "map_of spec_ShapingTimeTable t =
            Some (real_shaping_time (snd (get_params nh (init_state sti ini))))"
      by (simp only: gp c c1 c2 option.case snd_conv defaulted_settings_keeps) simp
  next
    assume "t \<notin> {NaN, Num 0.25, Num 0.5, Num 1, Num 2, Num 4, Num 6, Num 8, Num 10}"
    then have n: "map_find spec_ShapingTimeTable t = None"
      by (rule iffD2 [OF map_find_None])
    show "fst (get_params nh (init_state sti ini)) = - 1"
      by (simp only: gp n option.case fst_conv)
    show "trace (snd (get_params nh (init_state sti ini))) =
              [Ros_param ''load_previous_settings'', Ros_getParam ''high_voltage'',
               Ros_getParam ''gain'', Ros_getParam ''threshold'',
               Ros_getParam ''shaping_time'', Ros_getParam ''input_and_polarity'',
               Ros_getParam ''ramping_time'', Ros_ERROR shaping_time_invalid]"
      by (simp only: gp n option.case snd_conv failure_trace)
  qed
qed

section \<open>The claims\<close>

text \<open>
  C1 (the code departs from it). The claim: when \<open>get_params\<close> reports a failure,
  the process exits with a non-zero status and \<open>main\<close> neither constructs the
  \<open>ursa::Interface\<close> nor calls \<open>connect()\<close>. The code: with no parameter set at all,
  \<open>get_params\<close> logs the missing high voltage and returns \<open>-1\<close>; the guard of line 72
  tests for 0, so \<open>main\<close> goes on, constructs the interface on the empty port with baud
  rate 0 and connects. If the device answers, the initial values of the variables are
  written to it as settings and \<open>main\<close> ends with exit value 0; if it does not, the exit
  value is \<open>-1\<close>, after the connection attempt.
\<close>

theorem main_connects_after_failed_get_params:
  "fst (get_params nh_empty (init_state sti ini)) = - 1
   \<and> main nh_empty True (init_state sti ini) =
       (0, (init_state sti ini)\<lparr> trace :=
          [Ros_param ''load_previous_settings'', Ros_getParam ''high_voltage'',
           Ros_ERROR ''High voltage must be set.'',
           Ursa_new '''' 0, Ursa_connect, Ursa_connected, Ros_INFO ''URSA Connected'',
           Ros_advertise ''spectra'', Ros_advertiseService ''startAcquire'',
           Ros_advertiseService ''stopAcquire'', Ros_advertiseService ''clearSpectra'',
           Ros_createTimer,
           Ursa_setGain (Num 0), Ursa_setThresholdOffset 0, Ursa_setShapingTime sti,
           Ursa_setInput ini, Ursa_setRamp 6, Ursa_setVoltage 0,
           Ros_spin, Ursa_stopAcquire, Ursa_setVoltage 0] \<rparr>)
   \<and> main nh_empty False (init_state sti ini) =
       (- 1, (init_state sti ini)\<lparr> trace :=
          [Ros_param ''load_previous_settings'', Ros_getParam ''high_voltage'',
           Ros_ERROR ''High voltage must be set.'',
           Ursa_new '''' 0, Ursa_connect, Ursa_connected] \<rparr>)
   \<and> filter is_device_call (trace (snd (main nh_empty False (init_state sti ini)))) =
       [Ursa_new '''' 0, Ursa_connect, Ursa_connected]"
  by (simp add: main_def get_params_def explicit_settings_def emit_def param_def Let_def
        apply_settings_def immediate_start_def nh_empty_def init_state_def)

text \<open>
  C2. \<open>get_params\<close> returns \<open>-1\<close> on each failure path (the paths that end in a
  \<open>ROS_ERROR\<close>) and 1 on the success path (the path that ends with the read of
  \<open>detector_frame\<close>), and the input decides which: called on the initial variables,
  it returns \<open>-1\<close> when validation fails on the input and 1 when it does not. It never
  returns 0, so the guard of line 72 of \<open>main\<close>, which tests for 0, is false on every
  path: whatever \<open>get_params\<close> returns, \<open>main\<close> goes on to \<open>connect()\<close>.
\<close>

theorem get_params_returns_nonzero:
  "(fst (get_params nh s) = - 1 \<and> (\<exists>m. last (trace (snd (get_params nh s))) = Ros_ERROR m)
    \<or> fst (get_params nh s) = 1
       \<and> last (trace (snd (get_params nh s))) = Ros_param ''detector_frame'')
   \<and> fst (get_params nh s) \<noteq> 0
   \<and> Ursa_connect \<in> set (trace (snd (main nh is_connected s)))
   \<and> fst (get_params nh (init_state sti ini)) = (if validation_fails nh then - 1 else 1)"
proof -
  have paths: "fst (get_params nh s) = - 1
        \<and> (\<exists>m. last (trace (snd (get_params nh s))) = Ros_ERROR m)
      \<or> fst (get_params nh s) = 1
        \<and> last (trace (snd (get_params nh s))) = Ros_param ''detector_frame''"
    by (auto simp: get_params_def Let_def defaulted_settings_last
             split: sum.splits dest: explicit_settings_last)
  then have nonzero: "fst (get_params nh s) \<noteq> 0"
    by auto
  obtain r s1 where g: "get_params nh s = (r, s1)"
    by (cases "get_params nh s")
  with nonzero have "r \<noteq> 0"
    by simp
  then have "Ursa_connect \<in> set (trace (snd (main nh is_connected s)))"
    by (cases is_connected)
       (simp_all add: main_def g Let_def emit_def apply_settings_def immediate_start_def)
  with paths nonzero get_params_return [of nh sti ini] show ?thesis
    by blast
qed

theorem get_params_returns_nonzero_witness:
  "validation_fails nh_high_voltage_only
   \<and> fst (get_params nh_high_voltage_only (init_state TIME10uS INPUTXPOS)) = - 1
   \<and> \<not> validation_fails nh_load_prev_only
   \<and> fst (get_params nh_load_prev_only (init_state TIME10uS INPUTXPOS)) = 1"
proof -
  have fails: "validation_fails nh_high_voltage_only"
    by (simp add: validation_fails_def required_def param_def nh_high_voltage_only_def
          nh_empty_def)
  have passes: "\<not> validation_fails nh_load_prev_only"
    by (simp add: validation_fails_def param_def nh_load_prev_only_def nh_empty_def)
  note first = conjunct2 [OF conjunct2 [OF conjunct2 [OF get_params_returns_nonzero
    [where nh = nh_high_voltage_only and s = "init_state TIME10uS INPUTXPOS"
       and is_connected = True and sti = TIME10uS and ini = INPUTXPOS]]]]
  note second = conjunct2 [OF conjunct2 [OF conjunct2 [OF get_params_returns_nonzero
    [where nh = nh_load_prev_only and s = "init_state TIME10uS INPUTXPOS"
       and is_connected = True and sti = TIME10uS and ini = INPUTXPOS]]]]
  from first fails
  have a: "fst (get_params nh_high_voltage_only (init_state TIME10uS INPUTXPOS)) = - 1"
    by simp
  from second passes
  have b: "fst (get_params nh_load_prev_only (init_state TIME10uS INPUTXPOS)) = 1"
    by simp
  from fails a passes b show ?thesis
    by blast
qed

text \<open>
  C3. With \<open>load_previous_settings\<close> false and at least one of the six required fields
  missing, \<open>get_params\<close> fails, and what it has done by then is: read
  \<open>load_previous_settings\<close>, read the required keys in the fixed order up to and
  including the first missing one, and log the one message of that field. No later key
  is read, no second message is logged and the tables are not built. In particular, when
  \<open>high_voltage\<close> is the missing field, the only required key read is \<open>high_voltage\<close>,
  whatever the other fields are.
\<close>

theorem first_missing_field_reported:
  assumes off: "param (getParam_bool nh ''load_previous_settings'') False = False"
    and absent: "first_absent (required nh) = Some (k, m)"
  shows "fst (get_params nh s) = - 1
   \<and> trace (snd (get_params nh s)) =
       trace s @ Ros_param ''load_previous_settings''
         # map Ros_getParam (keys_read (required nh)) @ [Ros_ERROR m]
   \<and> shape_map (snd (get_params nh s)) = shape_map s
   \<and> input_map (snd (get_params nh s)) = input_map s
   \<and> (k = ''high_voltage'' \<longrightarrow>
        trace (snd (get_params nh s)) =
          trace s @ [Ros_param ''load_previous_settings'', Ros_getParam ''high_voltage'',
                     Ros_ERROR ''High voltage must be set.''])"
proof (cases "getParam_int nh ''high_voltage''")
  case None
  with absent show ?thesis
    by (auto simp: get_params_explicit [OF off] explicit_settings_no_high_voltage
          required_def)
next
  case v1: (Some v1)
  show ?thesis
  proof (cases "getParam_double nh ''gain''")
    case None
    with absent v1 show ?thesis
      by (auto simp: get_params_explicit [OF off] explicit_settings_no_gain
            required_def)
  next
    case v2: (Some v2)
    show ?thesis
    proof (cases "getParam_int nh ''threshold''")
      case None
      with absent v1 v2 show ?thesis
        by (auto simp: get_params_explicit [OF off] explicit_settings_no_threshold
              required_def)
    next
      case v3: (Some v3)
      show ?thesis
      proof (cases "getParam_double nh ''shaping_time''")
        case None
        with absent v1 v2 v3 show ?thesis
          by (auto simp: get_params_explicit [OF off] explicit_settings_no_shaping_time
                required_def)
      next
        case v4: (Some v4)
        show ?thesis
        proof (cases "getParam_string nh ''input_and_polarity''")
          case None
          with absent v1 v2 v3 v4 show ?thesis
            by (auto simp: get_params_explicit [OF off]
                  explicit_settings_no_input_and_polarity required_def)
        next
          case v5: (Some v5)
          show ?thesis
          proof (cases "getParam_int nh ''ramping_time''")
            case None
            with absent v1 v2 v3 v4 v5 show ?thesis
              by (auto simp: get_params_explicit [OF off]
                    explicit_settings_no_ramping_time required_def)
          next
            case (Some v6)
            with absent v1 v2 v3 v4 v5 show ?thesis
              by (simp add: required_def)
          qed
        qed
      qed
    qed
  qed
qed

theorem first_missing_field_reported_witness:
  "param (getParam_bool nh_high_voltage_only ''load_previous_settings'') False = False
   \<and> first_absent (required nh_high_voltage_only) = Some (''gain'', ''Gain must be set.'')
   \<and> fst (get_params nh_high_voltage_only (init_state TIME0_25uS INPUT1NEG)) = - 1
   \<and> trace (snd (get_params nh_high_voltage_only (init_state TIME0_25uS INPUT1NEG))) =
       [Ros_param ''load_previous_settings'', Ros_getParam ''high_voltage'',
        Ros_getParam ''gain'', Ros_ERROR ''Gain must be set.'']
   \<and> first_absent (required nh_empty) = Some (''high_voltage'', ''High voltage must be set.'')
   \<and> trace (snd (get_params nh_empty (init_state TIME0_25uS INPUT1NEG))) =
       [Ros_param ''load_previous_settings'', Ros_getParam ''high_voltage'',
        Ros_ERROR ''High voltage must be set.'']"
proof -
  have off1: "param (getParam_bool nh_high_voltage_only ''load_previous_settings'') False
                = False"
    by (simp add: param_def nh_high_voltage_only_def nh_empty_def)
  have abs1: "first_absent (required nh_high_voltage_only)
                = Some (''gain'', ''Gain must be set.'')"
    by (simp add: required_def nh_high_voltage_only_def nh_empty_def)
  have keys1: "keys_read (required nh_high_voltage_only) = [''high_voltage'', ''gain'']"
    by (simp add: required_def nh_high_voltage_only_def nh_empty_def)
  have off2: "param (getParam_bool nh_empty ''load_previous_settings'') False = False"
    by (simp add: param_def nh_empty_def)
  have abs2: "first_absent (required nh_empty)
                = Some (''high_voltage'', ''High voltage must be set.'')"
    by (simp add: required_def nh_empty_def)
  have keys2: "keys_read (required nh_empty) = [''high_voltage'']"
    by (simp add: required_def nh_empty_def)
  show ?thesis
    using first_missing_field_reported [OF off1 abs1, of "init_state TIME0_25uS INPUT1NEG"]
      first_missing_field_reported [OF off2 abs2, of "init_state TIME0_25uS INPUT1NEG"]
    by (simp add: off1 abs1 abs2 keys1 keys2 init_state_fields)
qed




text \<open>
  C5 (the code departs from it). The claim: the eight shaping times 0.25, 0.5, 1, 2, 4, 6,
  8, 10 are accepted, each with its code, and every other value is rejected, the match
  being by equality. The code does so for every number and for the infinities
  (\<open>shaping_time_lookup_numbers\<close>). But the test of line 209 is the \<open>find\<close> of a
  \<open>std::map\<close>, which takes two keys for the same when neither is less than the other,
  and no key is less than a NaN or greater: with a NaN shaping time (and the other five
  fields set and valid) \<open>find\<close> returns the entry of the smallest key, no error is
  logged, \<open>get_params\<close> returns 1, and line 223 stores the code of 0.25 microseconds.
\<close>

theorem nan_shaping_time_accepted:
  "getParam_double (nh_explicit NaN ''input1_negative'') ''shaping_time'' = Some NaN
   \<and> map_of spec_ShapingTimeTable NaN = None
   \<and> fst (get_params (nh_explicit NaN ''input1_negative'') (init_state sti ini)) = 1
   \<and> shaping_time (snd (get_params (nh_explicit NaN ''input1_negative'')
                           (init_state sti ini))) = NaN
   \<and> real_shaping_time (snd (get_params (nh_explicit NaN ''input1_negative'')
                                (init_state sti ini))) = TIME0_25uS
   \<and> trace (snd (get_params (nh_explicit NaN ''input1_negative'') (init_state sti ini))) =
        [Ros_param ''load_previous_settings'', Ros_getParam ''high_voltage'',
         Ros_getParam ''gain'', Ros_getParam ''threshold'',
         Ros_getParam ''shaping_time'', Ros_getParam ''input_and_polarity'',
         Ros_getParam ''ramping_time'', Ros_param ''port'', Ros_param ''baud'',
         Ros_param ''use_GM_mode'', Ros_param ''imeadiate_mode'',
         Ros_param ''detector_frame'']"
proof -
  let ?nh = "nh_explicit NaN ''input1_negative''"
  have set: "param (getParam_bool ?nh ''load_previous_settings'') False = False"
    "getParam_int ?nh ''high_voltage'' = Some 900"
    "getParam_double ?nh ''gain'' = Some (Num 3)"
    "getParam_int ?nh ''threshold'' = Some 2"
    "getParam_double ?nh ''shaping_time'' = Some NaN"
    "getParam_string ?nh ''input_and_polarity'' = Some ''input1_negative''"
    "getParam_int ?nh ''ramping_time'' = Some 6"
    by (simp_all add: nh_explicit_def param_def)
  have empty: "shape_map (init_state sti ini) = []"
    "input_map (init_state sti ini) = Map.empty"
    by (simp_all add: init_state_def)
  have label: "map_of spec_InputPolarityTable ''input1_negative'' = Some INPUT1NEG"
    by (simp add: spec_InputPolarityTable_def)
  have absent: "map_of spec_ShapingTimeTable NaN = None"
    by (simp add: spec_ShapingTimeTable_def)
  have run: "get_params ?nh (init_state sti ini) =
      (1, defaulted_settings ?nh
            ((fill_maps (six_read 900 (Num 3) 2 NaN ''input1_negative'' 6
               ((init_state sti ini)\<lparr>trace := trace (init_state sti ini)
                                          @ [Ros_param ''load_previous_settings''],
                                       load_prev := False\<rparr>)))
             \<lparr>real_shaping_time := TIME0_25uS, real_input := INPUT1NEG\<rparr>))"
    by (simp only: get_params_all_present [OF set empty] map_find_NaN label option.case
          snd_conv)
  show ?thesis
    unfolding run
    by (simp add: set(5) absent defaulted_settings_keeps defaulted_settings_writes
          fill_maps_keeps six_read_fields six_read_def init_state_fields)
qed

text \<open>
  C6. With \<open>load_previous_settings\<close> false, all six required fields set and the shaping
  time in its table: if the input label is one of \<open>input1_negative\<close>,
  \<open>input1_positive\<close>, \<open>input2_negative\<close>, \<open>input2_positive\<close>, \<open>shaped_input\<close>,
  \<open>get_params\<close> succeeds and \<open>real_input\<close> is the code of that label in the table;
  for every other string (strings are compared character by character, so a different
  case is a different string) it fails, the one message logged being that input and
  polarity must be valid.
\<close>

theorem input_polarity_lookup:
  assumes off: "param (getParam_bool nh ''load_previous_settings'') False = False"
    and present: "getParam_int nh ''high_voltage'' = Some v1"
      "getParam_double nh ''gain'' = Some v2"
      "getParam_int nh ''threshold'' = Some v3"
      "getParam_double nh ''shaping_time'' = Some t"
      "getParam_string nh ''input_and_polarity'' = Some p"
      "getParam_int nh ''ramping_time'' = Some v6"
    and valid: "t \<in> {Num 0.25, Num 0.5, Num 1, Num 2, Num 4, Num 6, Num 8, Num 10}"
  shows "(p \<in> {''input1_negative'', ''input1_positive'', ''input2_negative'',
                ''input2_positive'', ''shaped_input''} \<longrightarrow>
            fst (get_params nh (init_state sti ini)) = 1
          \<and> map_of spec_InputPolarityTable p =
              Some (real_input (snd (get_params nh (init_state sti ini)))))
       \<and> (p \<notin> {''input1_negative'', ''input1_positive'', ''input2_negative'',
                ''input2_positive'', ''shaped_input''} \<longrightarrow>
            fst (get_params nh (init_state sti ini)) = - 1
          \<and> trace (snd (get_params nh (init_state sti ini))) =
              [Ros_param ''load_previous_settings'', Ros_getParam ''high_voltage'',
               Ros_getParam ''gain'', Ros_getParam ''threshold'',
               Ros_getParam ''shaping_time'', Ros_getParam ''input_and_polarity'',
               Ros_getParam ''ramping_time'', Ros_ERROR input_polarity_invalid])"
proof -
  have empty: "shape_map (init_state sti ini) = []"
    "input_map (init_state sti ini) = Map.empty"
    by (simp_all add: init_state_def)
  note gp = get_params_all_present [OF off present empty]
  from valid obtain c where c: "map_of spec_ShapingTimeTable t = Some c"
    by (rule shaping_table_Some)
  have c1: "map_find spec_ShapingTimeTable t = Some (t, c)"
    by (rule map_find_key [OF valid c])
  show ?thesis
  proof (intro conjI impI)
    assume "p \<in> {''input1_negative'', ''input1_positive'', ''input2_negative'',
              ''input2_positive'', ''shaped_input''}"
    then obtain c2 where c2: "map_of spec_InputPolarityTable p = Some c2"
      by (rule polarity_table_Some)
    show "fst (get_params nh (init_state sti ini)) = 1"
      by (simp only: gp c1 c2 option.case fst_conv)
    show "map_of spec_InputPolarityTable p =
            Some (real_input (snd (get_params nh (init_state sti ini))))"
      by (simp only: gp c1 c2 option.case snd_conv defaulted_settings_keeps) simp
  next
    assume "p \<notin> {''input1_negative'', ''input1_positive'', ''input2_negative'',
              ''input2_positive'', ''shaped_input''}"
    then have n: "map_of spec_InputPolarityTable p = None"
      by (rule iffD2 [OF polarity_table_None])
    show "fst (get_params nh (init_state sti ini)) = - 1"
      by (simp only: gp c1 n option.case fst_conv)
    show "trace (snd (get_params nh (init_state sti ini))) =
              [Ros_param ''load_previous_settings'', Ros_getParam ''high_voltage'',
               Ros_getParam ''gain'', Ros_getParam ''threshold'',
               Ros_getParam ''shaping_time'', Ros_getParam ''input_and_polarity'',
               Ros_getParam ''ramping_time'', Ros_ERROR input_polarity_invalid]"
      by (simp only: gp c1 n option.case snd_conv failure_trace)
  qed
qed

theorem input_polarity_lookup_witness:
  "fst (get_params (nh_explicit (Num 6) ''input2_negative'') (init_state TIME10uS INPUTXPOS)) = 1
   \<and> real_input (snd (get_params (nh_explicit (Num 6) ''input2_negative'')
                         (init_state TIME10uS INPUTXPOS))) = INPUT2NEG
   \<and> fst (get_params (nh_explicit (Num 6) ''Input1_Negative'') (init_state TIME10uS INPUTXPOS)) = - 1
   \<and> trace (snd (get_params (nh_explicit (Num 6) ''Input1_Negative'')
                    (init_state TIME10uS INPUTXPOS))) =
        [Ros_param ''load_previous_settings'', Ros_getParam ''high_voltage'',
         Ros_getParam ''gain'', Ros_getParam ''threshold'',
         Ros_getParam ''shaping_time'', Ros_getParam ''input_and_polarity'',
         Ros_getParam ''ramping_time'', Ros_ERROR input_polarity_invalid]"
proof -
  have hyps: "param (getParam_bool (nh_explicit t p) ''load_previous_settings'') False = False"
    "getParam_int (nh_explicit t p) ''high_voltage'' = Some 900"
    "getParam_double (nh_explicit t p) ''gain'' = Some (Num 3)"
    "getParam_int (nh_explicit t p) ''threshold'' = Some 2"
    "getParam_double (nh_explicit t p) ''shaping_time'' = Some t"
    "getParam_string (nh_explicit t p) ''input_and_polarity'' = Some p"
    "getParam_int (nh_explicit t p) ''ramping_time'' = Some 6" for t p
    by (simp_all add: nh_explicit_def param_def)
  have six: "Num 6 \<in> {Num 0.25, Num 0.5, Num 1, Num 2, Num 4, Num 6, Num 8, Num 10}"
    by simp
  have inside: "''input2_negative'' \<in> {''input1_negative'', ''input1_positive'',
            ''input2_negative'', ''input2_positive'', ''shaped_input''}"
    by simp
  have outside: "''Input1_Negative'' \<notin> {''input1_negative'', ''input1_positive'',
            ''input2_negative'', ''input2_positive'', ''shaped_input''}"
    by simp
  have table: "map_of spec_InputPolarityTable ''input2_negative'' = Some INPUT2NEG"
    by (simp add: spec_InputPolarityTable_def)
  note valid = mp [OF conjunct1 [OF input_polarity_lookup
        [OF hyps [of "Num 6" "''input2_negative''"] six,
         where sti = TIME10uS and ini = INPUTXPOS]] inside]
  note invalid = mp [OF conjunct2 [OF input_polarity_lookup
        [OF hyps [of "Num 6" "''Input1_Negative''"] six,
         where sti = TIME10uS and ini = INPUTXPOS]] outside]
  from table [symmetric] conjunct2 [OF valid]
  have "Some INPUT2NEG = Some (real_input (snd (get_params
          (nh_explicit (Num 6) ''input2_negative'') (init_state TIME10uS INPUTXPOS))))"
    by (rule trans)
  then have code: "real_input (snd (get_params
          (nh_explicit (Num 6) ''input2_negative'') (init_state TIME10uS INPUTXPOS)))
        = INPUT2NEG"
    by simp
  from conjunct1 [OF valid] code invalid show ?thesis
    by blast
qed

text \<open>
  C7. \<open>fill_maps\<close> gives \<open>input1_positive\<close> and \<open>input2_positive\<close> the same code,
  \<open>INPUT1POS\<close>. So for two parameter sets that differ only in the input label, one with
  \<open>input1_positive\<close> and the other with \<open>input2_positive\<close> (with
  \<open>load_previous_settings\<close> false, the other five required fields set and the shaping
  time in its table, so that the label is what decides the resolution), both calls of
  \<open>get_params\<close> succeed and both leave \<open>INPUT1POS\<close> in \<open>real_input\<close>.
\<close>

theorem positive_inputs_share_code:
  assumes off: "param (getParam_bool nh ''load_previous_settings'') False = False"
    and present: "getParam_int nh ''high_voltage'' = Some v1"
      "getParam_double nh ''gain'' = Some v2"
      "getParam_int nh ''threshold'' = Some v3"
      "getParam_double nh ''shaping_time'' = Some t"
      "getParam_int nh ''ramping_time'' = Some v6"
    and valid: "t \<in> {Num 0.25, Num 0.5, Num 1, Num 2, Num 4, Num 6, Num 8, Num 10}"
  shows "input_map (fill_maps s) ''input1_positive'' = Some INPUT1POS
       \<and> input_map (fill_maps s) ''input2_positive'' = Some INPUT1POS
       \<and> fst (get_params (with_polarity nh ''input1_positive'') (init_state sti ini)) = 1
       \<and> fst (get_params (with_polarity nh ''input2_positive'') (init_state sti ini)) = 1
       \<and> real_input (snd (get_params (with_polarity nh ''input1_positive'')
                             (init_state sti ini))) = INPUT1POS
       \<and> real_input (snd (get_params (with_polarity nh ''input2_positive'')
                             (init_state sti ini))) = INPUT1POS"
proof -
  have empty: "shape_map (init_state sti ini) = []"
    "input_map (init_state sti ini) = Map.empty"
    by (simp_all add: init_state_def)
  from valid obtain c where c: "map_of spec_ShapingTimeTable t = Some c"
    by (rule shaping_table_Some)
  have c1: "map_find spec_ShapingTimeTable t = Some (t, c)"
    by (rule map_find_key [OF valid c])
  have c2: "map_of spec_InputPolarityTable ''input1_positive'' = Some INPUT1POS"
    "map_of spec_InputPolarityTable ''input2_positive'' = Some INPUT1POS"
    by (simp_all add: spec_InputPolarityTable_def)
  have gp: "get_params (with_polarity nh l) (init_state sti ini) =
    (case map_of spec_InputPolarityTable l of
       None \<Rightarrow> (- 1, emit (Ros_ERROR input_polarity_invalid)
           (fill_maps (six_read v1 v2 v3 t l v6
             ((init_state sti ini)\<lparr>trace := trace (init_state sti ini)
                                       @ [Ros_param ''load_previous_settings''],
                                    load_prev := False\<rparr>))))
     | Some c2 \<Rightarrow> (1, defaulted_settings (with_polarity nh l)
           ((fill_maps (six_read v1 v2 v3 t l v6
             ((init_state sti ini)\<lparr>trace := trace (init_state sti ini)
                                       @ [Ros_param ''load_previous_settings''],
                                    load_prev := False\<rparr>)))
            \<lparr>real_shaping_time := c, real_input := c2\<rparr>)))" for l
    using get_params_all_present [of "with_polarity nh l" v1 v2 v3 t l v6
            "init_state sti ini"] off present empty
    by (simp only: with_polarity_getters c1 option.case snd_conv)
  show ?thesis
    by (simp only: gp c2 option.case fst_conv snd_conv defaulted_settings_keeps
          input_map_positive) simp
qed

theorem positive_inputs_share_code_witness:
  "fst (get_params (with_polarity (nh_explicit (Num 1) ''input1_negative'') ''input1_positive'')
         (init_state TIME10uS INPUTXPOS)) = 1
   \<and> fst (get_params (with_polarity (nh_explicit (Num 1) ''input1_negative'') ''input2_positive'')
         (init_state TIME10uS INPUTXPOS)) = 1
   \<and> real_input (snd (get_params
         (with_polarity (nh_explicit (Num 1) ''input1_negative'') ''input1_positive'')
         (init_state TIME10uS INPUTXPOS))) = INPUT1POS
   \<and> real_input (snd (get_params
         (with_polarity (nh_explicit (Num 1) ''input1_negative'') ''input2_positive'')
         (init_state TIME10uS INPUTXPOS))) = INPUT1POS"
proof -
  have hyps:
    "param (getParam_bool (nh_explicit (Num 1) ''input1_negative'') ''load_previous_settings'')
       False = False"
    "getParam_int (nh_explicit (Num 1) ''input1_negative'') ''high_voltage'' = Some 900"
    "getParam_double (nh_explicit (Num 1) ''input1_negative'') ''gain'' = Some (Num 3)"
    "getParam_int (nh_explicit (Num 1) ''input1_negative'') ''threshold'' = Some 2"
    "getParam_double (nh_explicit (Num 1) ''input1_negative'') ''shaping_time'' = Some (Num 1)"
    "getParam_int (nh_explicit (Num 1) ''input1_negative'') ''ramping_time'' = Some 6"
    by (simp_all add: nh_explicit_def param_def)
  have one: "Num 1 \<in> {Num 0.25, Num 0.5, Num 1, Num 2, Num 4, Num 6, Num 8, Num 10}"
    by simp
  from positive_inputs_share_code [OF hyps one,
         where sti = TIME10uS and ini = INPUTXPOS]
  show ?thesis
    by blast
qed

text \<open>
  C8. When \<open>load_previous_settings\<close> is true, \<open>get_params\<close> succeeds whatever the six
  device fields are: it reads none of them (the only reads are the six \<open>param\<close> calls),
  logs no error, leaves the device variables and the two tables as they were, sets
  \<open>load_prev\<close>, and resolves port, baud rate, mode, immediate start and frame id from
  the parameters or their defaults. The settings step of \<open>main\<close> then consists of the
  single call \<open>loadPrevSettings\<close>.
\<close>

theorem load_prev_skips_validation:
  assumes "getParam_bool nh ''load_previous_settings'' = Some True"
  shows "get_params nh s =
     (1, s\<lparr> load_prev := True,
            port := param (getParam_string nh ''port'') ''/dev/ttyUSB0'',
            baud := param (getParam_int nh ''baud'') 115200,
            GMmode := param (getParam_bool nh ''use_GM_mode'') False,
            imeadiate := param (getParam_bool nh ''imeadiate_mode'') False,
            detector_frame := param (getParam_string nh ''detector_frame'') ''rad_link'',
            trace := trace s @ [Ros_param ''load_previous_settings'', Ros_param ''port'',
              Ros_param ''baud'', Ros_param ''use_GM_mode'', Ros_param ''imeadiate_mode'',
              Ros_param ''detector_frame''] \<rparr>)
   \<and> trace (apply_settings (snd (get_params nh s))) =
       trace (snd (get_params nh s)) @ [Ursa_loadPrevSettings]"
proof -
  from assms have on: "param (getParam_bool nh ''load_previous_settings'') False = True"
    by (simp add: param_def)
  have run: "get_params nh s =
      (1, defaulted_settings nh
            (s\<lparr>trace := trace s @ [Ros_param ''load_previous_settings''],
               load_prev := True\<rparr>))"
    by (rule get_params_load_prev [OF on])
  have settings: "trace (apply_settings s') = trace s' @ [Ursa_loadPrevSettings]"
    if "load_prev s'" for s'
    using that by (simp add: apply_settings_def emit_def)
  have "load_prev (snd (get_params nh s))"
    by (simp add: run defaulted_settings_keeps)
  then have "trace (apply_settings (snd (get_params nh s))) =
      trace (snd (get_params nh s)) @ [Ursa_loadPrevSettings]"
    by (rule settings)
  moreover have "get_params nh s =
     (1, s\<lparr> load_prev := True,
            port := param (getParam_string nh ''port'') ''/dev/ttyUSB0'',
            baud := param (getParam_int nh ''baud'') 115200,
            GMmode := param (getParam_bool nh ''use_GM_mode'') False,
            imeadiate := param (getParam_bool nh ''imeadiate_mode'') False,
            detector_frame := param (getParam_string nh ''detector_frame'') ''rad_link'',
            trace := trace s @ [Ros_param ''load_previous_settings'', Ros_param ''port'',
              Ros_param ''baud'', Ros_param ''use_GM_mode'', Ros_param ''imeadiate_mode'',
              Ros_param ''detector_frame''] \<rparr>)"
    unfolding run by (simp add: defaulted_settings_def emit_def Let_def)
  ultimately show ?thesis
    by (rule conjI [rotated])
qed

theorem load_prev_skips_validation_witness:
  "getParam_bool nh_load_prev_other ''load_previous_settings'' = Some True
   \<and> getParam_double nh_load_prev_other ''shaping_time'' = Some (Num 3)
   \<and> getParam_int nh_load_prev_other ''high_voltage'' = None
   \<and> fst (get_params nh_load_prev_other (init_state TIME10uS INPUTXPOS)) = 1
   \<and> load_prev (snd (get_params nh_load_prev_other (init_state TIME10uS INPUTXPOS)))
   \<and> shaping_time (snd (get_params nh_load_prev_other (init_state TIME10uS INPUTXPOS))) = Num 1
   \<and> port (snd (get_params nh_load_prev_other (init_state TIME10uS INPUTXPOS)))
        = ''/dev/ttyS1''
   \<and> baud (snd (get_params nh_load_prev_other (init_state TIME10uS INPUTXPOS))) = 115200
   \<and> trace (snd (get_params nh_load_prev_other (init_state TIME10uS INPUTXPOS))) =
        [Ros_param ''load_previous_settings'', Ros_param ''port'', Ros_param ''baud'',
         Ros_param ''use_GM_mode'', Ros_param ''imeadiate_mode'',
         Ros_param ''detector_frame'']"
proof -
  have on: "getParam_bool nh_load_prev_other ''load_previous_settings'' = Some True"
    by (simp add: nh_load_prev_other_def)
  have others: "getParam_double nh_load_prev_other ''shaping_time'' = Some (Num 3)"
    "getParam_int nh_load_prev_other ''high_voltage'' = None"
    "param (getParam_string nh_load_prev_other ''port'') ''/dev/ttyUSB0'' = ''/dev/ttyS1''"
    "param (getParam_int nh_load_prev_other ''baud'') 115200 = 115200"
    by (simp_all add: nh_load_prev_other_def param_def)
  from conjunct1 [OF load_prev_skips_validation [OF on, of "init_state TIME10uS INPUTXPOS"]]
  show ?thesis
    by (simp add: on others init_state_fields)
qed

text \<open>
  C9. With \<open>load_previous_settings\<close> true and nothing else set, \<open>get_params\<close> succeeds
  without logging anything and leaves the port \<open>/dev/ttyUSB0\<close>, the baud rate 115200,
  \<open>GMmode\<close> false (spectral mode), \<open>imeadiate\<close> false and the frame id
  \<open>rad_link\<close>.
\<close>

theorem defaults_when_load_prev:
  "get_params nh_load_prev_only s =
     (1, s\<lparr> load_prev := True, port := ''/dev/ttyUSB0'', baud := 115200,
            GMmode := False, imeadiate := False, detector_frame := ''rad_link'',
            trace := trace s @ [Ros_param ''load_previous_settings'', Ros_param ''port'',
              Ros_param ''baud'', Ros_param ''use_GM_mode'', Ros_param ''imeadiate_mode'',
              Ros_param ''detector_frame''] \<rparr>)"
  by (simp add: get_params_def defaulted_settings_def emit_def param_def Let_def
        nh_load_prev_only_def nh_empty_def)

text \<open>
  C10. After a successful \<open>get_params\<close> and a successful connection, the calls of
  \<open>main\<close> are, in this order: the construction of the interface and the connection;
  the publisher, the three services and the timer; the settings; the immediate start, if
  asked for; and, once \<open>ros::spin()\<close> has returned, the shutdown calls of lines 119 and
  120. The settings are the single call \<open>loadPrevSettings\<close> when \<open>load_prev\<close> is true,
  and otherwise exactly \<open>setGain\<close>, \<open>setThresholdOffset\<close>, \<open>setShapingTime\<close>,
  \<open>setInput\<close>, \<open>setRamp\<close>, \<open>setVoltage\<close>, in this order, with the resolved values.
\<close>

theorem settings_applied_in_order:
  assumes ok: "get_params nh s0 = (1, s1)"
    and conn: "is_connected"
  shows "fst (main nh is_connected s0) = 0
   \<and> trace (apply_settings s1) =
       trace s1
       @ (if load_prev s1 then [Ursa_loadPrevSettings]
          else [Ursa_setGain (gain s1), Ursa_setThresholdOffset (threshold s1),
                Ursa_setShapingTime (real_shaping_time s1), Ursa_setInput (real_input s1),
                Ursa_setRamp (ramp s1), Ursa_setVoltage (HV s1)])
   \<and> trace (snd (main nh is_connected s0)) =
       trace s1
       @ [Ursa_new (port s1) (baud s1), Ursa_connect, Ursa_connected,
          Ros_INFO ''URSA Connected'',
          Ros_advertise (if GMmode s1 then ''counts'' else ''spectra''),
          Ros_advertiseService ''startAcquire'', Ros_advertiseService ''stopAcquire'',
          Ros_advertiseService ''clearSpectra'', Ros_createTimer]
       @ (if load_prev s1 then [Ursa_loadPrevSettings]
          else [Ursa_setGain (gain s1), Ursa_setThresholdOffset (threshold s1),
                Ursa_setShapingTime (real_shaping_time s1), Ursa_setInput (real_input s1),
                Ursa_setRamp (ramp s1), Ursa_setVoltage (HV s1)])
       @ (if imeadiate s1
          then [if GMmode s1 then Ursa_startGM else Ursa_startAcquire, Ros_timer_start]
          else [])
       @ [Ros_spin, Ursa_stopAcquire, Ursa_setVoltage 0]"
  using conn
  by (simp add: main_def ok Let_def emit_def apply_settings_def immediate_start_def)

theorem settings_applied_in_order_witness:
  "trace (snd (main (nh_explicit (Num 1) ''input1_negative'') True
                 (init_state TIME10uS INPUTXPOS))) =
     [Ros_param ''load_previous_settings'', Ros_getParam ''high_voltage'',
      Ros_getParam ''gain'', Ros_getParam ''threshold'', Ros_getParam ''shaping_time'',
      Ros_getParam ''input_and_polarity'', Ros_getParam ''ramping_time'',
      Ros_param ''port'', Ros_param ''baud'', Ros_param ''use_GM_mode'',
      Ros_param ''imeadiate_mode'', Ros_param ''detector_frame'',
      Ursa_new ''/dev/ttyUSB0'' 115200, Ursa_connect, Ursa_connected,
      Ros_INFO ''URSA Connected'', Ros_advertise ''spectra'',
      Ros_advertiseService ''startAcquire'', Ros_advertiseService ''stopAcquire'',
      Ros_advertiseService ''clearSpectra'', Ros_createTimer,
      Ursa_setGain (Num 3), Ursa_setThresholdOffset 2, Ursa_setShapingTime TIME1uS,
      Ursa_setInput INPUT1NEG, Ursa_setRamp 6, Ursa_setVoltage 900,
      Ros_spin, Ursa_stopAcquire, Ursa_setVoltage 0]
   \<and> trace (snd (main nh_load_prev_only True (init_state TIME10uS INPUTXPOS))) =
     [Ros_param ''load_previous_settings'',
      Ros_param ''port'', Ros_param ''baud'', Ros_param ''use_GM_mode'',
      Ros_param ''imeadiate_mode'', Ros_param ''detector_frame'',
      Ursa_new ''/dev/ttyUSB0'' 115200, Ursa_connect, Ursa_connected,
      Ros_INFO ''URSA Connected'', Ros_advertise ''spectra'',
      Ros_advertiseService ''startAcquire'', Ros_advertiseService ''stopAcquire'',
      Ros_advertiseService ''clearSpectra'', Ros_createTimer,
      Ursa_loadPrevSettings,
      Ros_spin, Ursa_stopAcquire, Ursa_setVoltage 0]"
proof -
  let ?nh = "nh_explicit (Num 1) ''input1_negative''"
  let ?i = "init_state TIME10uS INPUTXPOS"
  let ?s1 = "defaulted_settings ?nh
     ((fill_maps (six_read 900 (Num 3) 2 (Num 1) ''input1_negative'' 6
        (?i\<lparr>trace := trace ?i @ [Ros_param ''load_previous_settings''],
            load_prev := False\<rparr>)))
      \<lparr>real_shaping_time := TIME1uS, real_input := INPUT1NEG\<rparr>)"
  have hyps: "param (getParam_bool ?nh ''load_previous_settings'') False = False"
    "getParam_int ?nh ''high_voltage'' = Some 900"
    "getParam_double ?nh ''gain'' = Some (Num 3)"
    "getParam_int ?nh ''threshold'' = Some 2"
    "getParam_double ?nh ''shaping_time'' = Some (Num 1)"
    "getParam_string ?nh ''input_and_polarity'' = Some ''input1_negative''"
    "getParam_int ?nh ''ramping_time'' = Some 6"
    by (simp_all add: nh_explicit_def param_def)
  have empty: "shape_map ?i = []" "input_map ?i = Map.empty"
    by (simp_all add: init_state_def)
  have tables: "map_find spec_ShapingTimeTable (Num 1) = Some (Num 1, TIME1uS)"
    "map_of spec_InputPolarityTable ''input1_negative'' = Some INPUT1NEG"
    by (simp_all add: map_find_def spec_ShapingTimeTable_def spec_InputPolarityTable_def)
  have explicit: "get_params ?nh ?i = (1, ?s1)"
    by (simp only: get_params_all_present [OF hyps empty] tables option.case snd_conv)
  have others: "param (getParam_string ?nh ''port'') ''/dev/ttyUSB0'' = ''/dev/ttyUSB0''"
    "param (getParam_int ?nh ''baud'') 115200 = 115200"
    "param (getParam_bool ?nh ''use_GM_mode'') False = False"
    "param (getParam_bool ?nh ''imeadiate_mode'') False = False"
    by (simp_all add: nh_explicit_def param_def)
  have s1: "trace ?s1 =
      [Ros_param ''load_previous_settings'', Ros_getParam ''high_voltage'',
       Ros_getParam ''gain'', Ros_getParam ''threshold'', Ros_getParam ''shaping_time'',
       Ros_getParam ''input_and_polarity'', Ros_getParam ''ramping_time'',
       Ros_param ''port'', Ros_param ''baud'', Ros_param ''use_GM_mode'',
       Ros_param ''imeadiate_mode'', Ros_param ''detector_frame'']"
    "port ?s1 = ''/dev/ttyUSB0''" "baud ?s1 = 115200" "\<not> GMmode ?s1" "\<not> imeadiate ?s1"
    "\<not> load_prev ?s1" "gain ?s1 = Num 3" "threshold ?s1 = 2"
    "real_shaping_time ?s1 = TIME1uS" "real_input ?s1 = INPUT1NEG" "ramp ?s1 = 6"
    "HV ?s1 = 900"
    by (simp_all add: defaulted_settings_writes defaulted_settings_keeps fill_maps_keeps
          six_read_def init_state_fields others)
  have on: "getParam_bool nh_load_prev_only ''load_previous_settings'' = Some True"
    by (simp add: nh_load_prev_only_def)
  have previous: "get_params nh_load_prev_only ?i =
      (1, ?i\<lparr> load_prev := True, port := ''/dev/ttyUSB0'', baud := 115200,
               GMmode := False, imeadiate := False, detector_frame := ''rad_link'',
               trace := trace ?i @ [Ros_param ''load_previous_settings'',
                 Ros_param ''port'', Ros_param ''baud'', Ros_param ''use_GM_mode'',
                 Ros_param ''imeadiate_mode'', Ros_param ''detector_frame''] \<rparr>)"
    unfolding get_params_load_prev_result [OF on]
    by (simp add: param_def nh_load_prev_only_def nh_empty_def)
  from settings_applied_in_order [OF explicit TrueI]
  have first: "trace (snd (main ?nh True ?i)) =
     [Ros_param ''load_previous_settings'', Ros_getParam ''high_voltage'',
      Ros_getParam ''gain'', Ros_getParam ''threshold'', Ros_getParam ''shaping_time'',
      Ros_getParam ''input_and_polarity'', Ros_getParam ''ramping_time'',
      Ros_param ''port'', Ros_param ''baud'', Ros_param ''use_GM_mode'',
      Ros_param ''imeadiate_mode'', Ros_param ''detector_frame'',
      Ursa_new ''/dev/ttyUSB0'' 115200, Ursa_connect, Ursa_connected,
      Ros_INFO ''URSA Connected'', Ros_advertise ''spectra'',
      Ros_advertiseService ''startAcquire'', Ros_advertiseService ''stopAcquire'',
      Ros_advertiseService ''clearSpectra'', Ros_createTimer,
      Ursa_setGain (Num 3), Ursa_setThresholdOffset 2, Ursa_setShapingTime TIME1uS,
      Ursa_setInput INPUT1NEG, Ursa_setRamp 6, Ursa_setVoltage 900,
      Ros_spin, Ursa_stopAcquire, Ursa_setVoltage 0]"
    by (simp add: s1)
  from settings_applied_in_order [OF previous TrueI]
  have second: "trace (snd (main nh_load_prev_only True ?i)) =
     [Ros_param ''load_previous_settings'',
      Ros_param ''port'', Ros_param ''baud'', Ros_param ''use_GM_mode'',
      Ros_param ''imeadiate_mode'', Ros_param ''detector_frame'',
      Ursa_new ''/dev/ttyUSB0'' 115200, Ursa_connect, Ursa_connected,
      Ros_INFO ''URSA Connected'', Ros_advertise ''spectra'',
      Ros_advertiseService ''startAcquire'', Ros_advertiseService ''stopAcquire'',
      Ros_advertiseService ''clearSpectra'', Ros_createTimer,
      Ursa_loadPrevSettings,
      Ros_spin, Ursa_stopAcquire, Ursa_setVoltage 0]"
    by (simp add: init_state_fields)
  from first second show ?thesis
    by (rule conjI)
qed

end
